theory Spec2Isabelle
  imports Complex_Main
begin

section \<open>The growth projection tool\<close>

text \<open>
  A shallow embedding of \<^verbatim>\<open>generate_growth_projection\<close> of
  \<^verbatim>\<open>growth_projection_tool.py\<close>.

  Numbers. Python's \<^verbatim>\<open>int\<close> is unbounded and is modelled by \<open>int\<close>. The growth
  rate and the prices are Python floats; they are modelled by \<open>real\<close>, so every
  product and sum below is exact. The rounding of binary floating point (and the
  \<^verbatim>\<open>OverflowError\<close> of converting an infinite float) is outside this model:
  every theorem of this theory is a statement about the arithmetic the code
  writes down, evaluated without rounding error. Where a product is not a
  double, Python can differ from it: \<^verbatim>\<open>int(100 * (1 + 15 / 100))\<close> is 114 there,
  the product rounding to a double just below 115, and 115 here.
\<close>

subsection \<open>Values\<close>

text \<open>
  \<^verbatim>\<open>int(x)\<close> on a float truncates toward zero.
\<close>

definition py_int :: "real \<Rightarrow> int" where
  "py_int x = (if x < 0 then \<lceil>x\<rceil> else \<lfloor>x\<rfloor>)"

text \<open>
  A row of \<^verbatim>\<open>pricing_data\<close> is a Python list that mixes ints (the month and the
  user count) and floats (the costs). The int \<^verbatim>\<open>0\<close> that line 32 appends and the
  int \<^verbatim>\<open>0\<close> that \<^verbatim>\<open>total_cost\<close> starts from are the number \<open>0\<close> of the costs
  (Python has \<^verbatim>\<open>0 == 0.0\<close>).
\<close>

datatype cell = PyInt int | PyFloat real

fun cell_value :: "cell \<Rightarrow> real" where
  "cell_value (PyInt i) = of_int i"
| "cell_value (PyFloat x) = x"

subsection \<open>Lines 7 to 9: the user counts\<close>

text \<open>
  \<^verbatim>\<open>for _ in range(months): users.append(int(users[-1] * (1 + growth_rate / 100)))\<close>.
  The loop counter is the number of iterations left; \<^verbatim>\<open>range(months)\<close> is empty
  for \<^verbatim>\<open>months <= 0\<close>, hence \<open>nat months\<close> iterations. The list starts as
  \<^verbatim>\<open>[initial_users]\<close> and only grows, so \<^verbatim>\<open>users[-1]\<close> never reads an empty list.
\<close>

fun users_loop :: "nat \<Rightarrow> real \<Rightarrow> int list \<Rightarrow> int list" where
  "users_loop 0 growth_rate users = users"
| "users_loop (Suc n) growth_rate users =
     users_loop n growth_rate
       (users @ [py_int (of_int (last users) * (1 + growth_rate / 100))])"

definition projected_users :: "int \<Rightarrow> real \<Rightarrow> int \<Rightarrow> int list" where
  "projected_users initial_users growth_rate months =
     users_loop (nat months) growth_rate [initial_users]"

subsection \<open>Lines 13 to 36: the pricing of one month\<close>

text \<open>
  The loop of lines 17 to 25 over \<^verbatim>\<open>zip(tier_limits, tier_prices)\<close>, with its three
  variables \<^verbatim>\<open>remaining_users\<close>, \<^verbatim>\<open>tier_costs\<close> and \<^verbatim>\<open>total_cost\<close> passed as
  state.
\<close>

fun tier_loop :: "(int \<times> real) list \<Rightarrow> int \<Rightarrow> real list \<Rightarrow> real \<Rightarrow> int \<times> real list \<times> real" where
  "tier_loop [] remaining_users tier_costs total_cost =
     (remaining_users, tier_costs, total_cost)"
| "tier_loop ((limit, price) # tiers) remaining_users tier_costs total_cost =
     (if remaining_users > limit
      then tier_loop tiers (remaining_users - limit)
             (tier_costs @ [of_int limit * price]) (total_cost + of_int limit * price)
      else tier_loop tiers 0
             (tier_costs @ [of_int remaining_users * price])
             (total_cost + of_int remaining_users * price))"

text \<open>
  The body of the loop over the months: the pair \<^verbatim>\<open>(tier_costs, total_cost)\<close> that
  line 38 puts into the row.
\<close>

definition month_pricing ::
  "bool \<Rightarrow> int list \<Rightarrow> real list \<Rightarrow> real \<Rightarrow> int \<Rightarrow> real list \<times> real" where
  "month_pricing use_tiers tier_limits tier_prices final_tier_price user_count =
     (if use_tiers then
        (case tier_loop (zip tier_limits tier_prices) user_count [] 0 of
           (remaining_users, tier_costs, total_cost) \<Rightarrow>
             if remaining_users > 0
             then (tier_costs @ [of_int remaining_users * final_tier_price],
                   total_cost + of_int remaining_users * final_tier_price)
             else (tier_costs @ [0], total_cost))
      else ([of_int user_count * final_tier_price], of_int user_count * final_tier_price))"

text \<open>Line 38: \<^verbatim>\<open>[i, user_count] + tier_costs + [total_cost]\<close>.\<close>

definition pricing_row ::
  "bool \<Rightarrow> int list \<Rightarrow> real list \<Rightarrow> real \<Rightarrow> nat \<Rightarrow> int \<Rightarrow> cell list" where
  "pricing_row use_tiers tier_limits tier_prices final_tier_price i user_count =
     (case month_pricing use_tiers tier_limits tier_prices final_tier_price user_count of
        (tier_costs, total_cost) \<Rightarrow>
          [PyInt (int i), PyInt user_count] @ map PyFloat tier_costs @ [PyFloat total_cost])"

text \<open>Lines 11 to 38, over \<^verbatim>\<open>enumerate(users)\<close>.\<close>

definition pricing_data ::
  "int \<Rightarrow> real \<Rightarrow> int \<Rightarrow> int list \<Rightarrow> real list \<Rightarrow> real \<Rightarrow> bool \<Rightarrow> cell list list" where
  "pricing_data initial_users growth_rate months tier_limits tier_prices final_tier_price use_tiers =
     map (\<lambda>(i, user_count).
            pricing_row use_tiers tier_limits tier_prices final_tier_price i user_count)
         (enumerate 0 (projected_users initial_users growth_rate months))"

subsection \<open>Lines 40 to 45: the column headers\<close>

text \<open>The decimal digits of a natural number, as the f-string prints \<^verbatim>\<open>i+1\<close>.\<close>

function str_nat :: "nat \<Rightarrow> string" where
  "str_nat n =
     (if n < 10 then [''0123456789'' ! n]
      else str_nat (n div 10) @ [''0123456789'' ! (n mod 10)])"
  by pat_completeness auto
termination
  by (relation "measure (\<lambda>n. n)") auto

declare str_nat.simps [simp del]

definition column_headers :: "bool \<Rightarrow> int list \<Rightarrow> string list" where
  "column_headers use_tiers tier_limits =
     [''Month'', ''Projected Users''] @
     (if use_tiers
      then map (\<lambda>i. ''Tier '' @ str_nat (i + 1) @ '' Pricing ($)'') [0..<length tier_limits]
           @ [''Final Tier Pricing ($)'']
      else [''Final Tier Pricing ($)'']) @
     [''Total Estimated Pricing ($)'']"

subsection \<open>Lines 47 and 48: the table\<close>

text \<open>
  \<^verbatim>\<open>pd.DataFrame(pricing_data, columns=column_headers)\<close> is a call into pandas, which
  is not code of this repository. Of its constructor the model keeps the shape check:
  rows whose width is not the number of column labels are refused with a
  \<^verbatim>\<open>ValueError\<close>. All rows of \<^verbatim>\<open>pricing_data\<close> have the same width.
\<close>

datatype py_error = ValueError

record dataframe =
  columns :: "string list"
  rows :: "cell list list"

definition DataFrame :: "cell list list \<Rightarrow> string list \<Rightarrow> py_error + dataframe" where
  "DataFrame data cols =
     (if list_all (\<lambda>row. length row = length cols) data
      then Inr \<lparr>columns = cols, rows = data\<rparr>
      else Inl ValueError)"

definition generate_growth_projection ::
  "int \<Rightarrow> real \<Rightarrow> int \<Rightarrow> int list \<Rightarrow> real list \<Rightarrow> real \<Rightarrow> bool \<Rightarrow> py_error + dataframe" where
  "generate_growth_projection initial_users growth_rate months tier_limits tier_prices
       final_tier_price use_tiers =
     DataFrame
       (pricing_data initial_users growth_rate months tier_limits tier_prices
          final_tier_price use_tiers)
       (column_headers use_tiers tier_limits)"

subsection \<open>Reading the table\<close>

text \<open>
  The columns of a row, by the position the headers give them: the first cell is
  \<^verbatim>\<open>Month\<close>, the second \<^verbatim>\<open>Projected Users\<close>, the last
  \<^verbatim>\<open>Total Estimated Pricing ($)\<close>, and the cells between are the tier costs (the
  bounded tiers, then the final tier).
\<close>

definition row_month :: "cell list \<Rightarrow> cell" where
  "row_month row = row ! 0"

definition row_users :: "cell list \<Rightarrow> cell" where
  "row_users row = row ! 1"

definition row_tier_costs :: "cell list \<Rightarrow> real list" where
  "row_tier_costs row = map cell_value (butlast (drop 2 row))"

definition row_total_cost :: "cell list \<Rightarrow> real" where
  "row_total_cost row = cell_value (last row)"

subsection \<open>The configurations the specification calls valid\<close>

text \<open>
  A positive initial population and horizon, a non-negative growth rate and prices,
  positive tier capacities, and (tiers being pairs of a capacity and a price) as
  many tier prices as tier limits. The form of \<^verbatim>\<open>main\<close> can only produce such
  arguments: its widgets have \<^verbatim>\<open>min_value=1\<close> for the initial users and the tier
  limits, \<^verbatim>\<open>min_value=0.0\<close> for the rate and the prices, 12 or 24 months, and one
  limit and one price per tier.
\<close>

definition valid_config ::
  "int \<Rightarrow> real \<Rightarrow> int \<Rightarrow> int list \<Rightarrow> real list \<Rightarrow> real \<Rightarrow> bool \<Rightarrow> bool" where
  "valid_config initial_users growth_rate months tier_limits tier_prices final_tier_price
       use_tiers \<longleftrightarrow>
     0 < initial_users \<and> 0 < months \<and> 0 \<le> growth_rate \<and> 0 \<le> final_tier_price \<and>
     (use_tiers \<longrightarrow>
        length tier_limits = length tier_prices \<and>
        (\<forall>limit \<in> set tier_limits. 0 < limit) \<and>
        (\<forall>price \<in> set tier_prices. 0 \<le> price))"

subsection \<open>The tiered pricing as the specification words it\<close>

text \<open>
  The specification's evaluation of a tiered schedule: for each tier
  \<open>(capacity, unitPrice)\<close> in order, \<open>charged = min(remaining, capacity)\<close>,
  \<open>cost = charged * unitPrice\<close>, the cost is appended and added to the
  total (\<open>totalCost\<close> below), and
  \<open>remaining\<close> decreases by \<open>charged\<close>; then the overflow entry. It is compared
  with \<open>tier_loop\<close> and \<open>month_pricing\<close>, which follow the code.
\<close>

fun spec_tiers :: "(int \<times> real) list \<Rightarrow> int \<Rightarrow> real list \<Rightarrow> real \<Rightarrow> int \<times> real list \<times> real" where
  "spec_tiers [] remaining tierCosts totalCost = (remaining, tierCosts, totalCost)"
| "spec_tiers ((capacity, unitPrice) # tiers) remaining tierCosts totalCost =
     (let charged = min remaining capacity;
          cost = of_int charged * unitPrice
      in spec_tiers tiers (remaining - charged) (tierCosts @ [cost]) (totalCost + cost))"

definition spec_tiered_pricing :: "(int \<times> real) list \<Rightarrow> real \<Rightarrow> int \<Rightarrow> real list \<times> real" where
  "spec_tiered_pricing tiers finalUnitPrice userCount =
     (case spec_tiers tiers userCount [] 0 of
        (remaining, tierCosts, totalCost) \<Rightarrow>
          if remaining > 0
          then (tierCosts @ [of_int remaining * finalUnitPrice],
                totalCost + of_int remaining * finalUnitPrice)
          else (tierCosts @ [0], totalCost))"

section \<open>Properties\<close>

subsection \<open>The user counts\<close>

lemma users_loop_length: "length (users_loop n growth_rate users) = length users + n"
  by (induction n arbitrary: users) simp_all



lemma projected_users_length:
  "length (projected_users initial_users growth_rate months) = nat months + 1"
  by (simp add: projected_users_def users_loop_length)






subsection \<open>The pricing of one month\<close>

lemma tier_loop_costs_length:
  "length (fst (snd (tier_loop tiers remaining_users tier_costs total_cost)))
     = length tier_costs + length tiers"
  by (induction tiers remaining_users tier_costs total_cost rule: tier_loop.induct) simp_all

lemma tier_loop_sum:
  "snd (snd (tier_loop tiers remaining_users tier_costs total_cost))
     - sum_list (fst (snd (tier_loop tiers remaining_users tier_costs total_cost)))
   = total_cost - sum_list tier_costs"
  by (induction tiers remaining_users tier_costs total_cost rule: tier_loop.induct) simp_all

lemma tier_loop_spec:
  "tier_loop tiers remaining_users tier_costs total_cost
     = spec_tiers tiers remaining_users tier_costs total_cost"
proof (induction tiers remaining_users tier_costs total_cost rule: tier_loop.induct)
  case (1 remaining_users tier_costs total_cost)
  show ?case by simp
next
  case (2 limit price tiers remaining_users tier_costs total_cost)
  show ?case
  proof (cases "remaining_users > limit")
    case True
    then have "min remaining_users limit = limit" by simp
    with True 2 show ?thesis by (simp add: Let_def)
  next
    case False
    then have "min remaining_users limit = remaining_users" by simp
    with False 2 show ?thesis by (simp add: Let_def)
  qed
qed

lemma tier_loop_exhausted:
  "\<forall>limit \<in> set (map fst tiers). 0 \<le> limit \<Longrightarrow>
   remaining_users \<le> sum_list (map fst tiers) \<Longrightarrow>
   fst (tier_loop tiers remaining_users tier_costs total_cost) \<le> 0"
proof (induction tiers remaining_users tier_costs total_cost rule: tier_loop.induct)
  case (1 remaining_users tier_costs total_cost)
  then show ?case by simp
next
  case (2 limit price tiers remaining_users tier_costs total_cost)
  have nonneg: "\<forall>l \<in> set (map fst tiers). 0 \<le> l" using 2(3) by simp
  then have "0 \<le> sum_list (map fst tiers)" by (intro sum_list_nonneg) auto
  with 2 nonneg show ?case by simp
qed

text \<open>
  With capacities that are not negative, the users left after the bounded tiers
  are those beyond the sum of the capacities.
\<close>

lemma tier_loop_remaining:
  "\<forall>limit \<in> set (map fst tiers). 0 \<le> limit \<Longrightarrow> 0 \<le> remaining_users \<Longrightarrow>
   fst (tier_loop tiers remaining_users tier_costs total_cost)
     = max 0 (remaining_users - sum_list (map fst tiers))"
proof (induction tiers remaining_users tier_costs total_cost rule: tier_loop.induct)
  case (1 remaining_users tier_costs total_cost)
  then show ?case by simp
next
  case (2 limit price tiers remaining_users tier_costs total_cost)
  have nonneg: "\<forall>l \<in> set (map fst tiers). 0 \<le> l" using 2(3) by simp
  then have "0 \<le> sum_list (map fst tiers)" by (intro sum_list_nonneg) auto
  with 2 nonneg show ?case by (simp add: algebra_simps)
qed

lemma month_pricing_sum:
  "sum_list (fst (month_pricing use_tiers tier_limits tier_prices final_tier_price user_count))
     = snd (month_pricing use_tiers tier_limits tier_prices final_tier_price user_count)"
proof (cases "tier_loop (zip tier_limits tier_prices) user_count [] 0")
  case (fields remaining_users tier_costs total_cost)
  then have "total_cost = sum_list tier_costs"
    using tier_loop_sum [of "zip tier_limits tier_prices" user_count "[]" 0] by simp
  with fields show ?thesis by (simp add: month_pricing_def)
qed

lemma month_pricing_length:
  "length (fst (month_pricing use_tiers tier_limits tier_prices final_tier_price user_count))
     = (if use_tiers then min (length tier_limits) (length tier_prices) + 1 else 1)"
proof (cases "tier_loop (zip tier_limits tier_prices) user_count [] 0")
  case (fields remaining_users tier_costs total_cost)
  then have "length tier_costs = min (length tier_limits) (length tier_prices)"
    using tier_loop_costs_length [of "zip tier_limits tier_prices" user_count "[]" 0] by simp
  with fields show ?thesis by (simp add: month_pricing_def)
qed

lemma month_pricing_spec:
  "month_pricing True tier_limits tier_prices final_tier_price user_count
     = spec_tiered_pricing (zip tier_limits tier_prices) final_tier_price user_count"
  by (simp add: month_pricing_def spec_tiered_pricing_def tier_loop_spec)

lemma month_pricing_flat:
  "month_pricing False tier_limits tier_prices final_tier_price user_count
     = ([of_int user_count * final_tier_price], of_int user_count * final_tier_price)"
  by (simp add: month_pricing_def)

lemma month_pricing_overflow_zero:
  assumes "\<forall>limit \<in> set tier_limits. 0 \<le> limit" "length tier_limits = length tier_prices"
    "user_count \<le> sum_list tier_limits"
  shows "last (fst (month_pricing True tier_limits tier_prices final_tier_price user_count)) = 0"
proof -
  have "map fst (zip tier_limits tier_prices) = tier_limits"
    using assms(2) by simp
  then have "fst (tier_loop (zip tier_limits tier_prices) user_count [] 0) \<le> 0"
    using tier_loop_exhausted [of "zip tier_limits tier_prices" user_count "[]" 0] assms by simp
  then show ?thesis
    by (cases "tier_loop (zip tier_limits tier_prices) user_count [] 0")
      (simp add: month_pricing_def)
qed

lemma month_pricing_overflow:
  assumes "\<forall>limit \<in> set tier_limits. 0 \<le> limit" "length tier_limits = length tier_prices"
    "0 \<le> user_count"
  shows "last (fst (month_pricing True tier_limits tier_prices final_tier_price user_count))
           = of_int (max 0 (user_count - sum_list tier_limits)) * final_tier_price"
proof -
  have "map fst (zip tier_limits tier_prices) = tier_limits"
    using assms(2) by simp
  then have "fst (tier_loop (zip tier_limits tier_prices) user_count [] 0)
               = max 0 (user_count - sum_list tier_limits)"
    using tier_loop_remaining [of "zip tier_limits tier_prices" user_count "[]" 0] assms by simp
  then show ?thesis
    by (cases "tier_loop (zip tier_limits tier_prices) user_count [] 0")
      (auto simp: month_pricing_def)
qed

lemma month_pricing_surplus:
  "month_pricing True tier_limits tier_prices final_tier_price user_count
     = month_pricing True (take (min (length tier_limits) (length tier_prices)) tier_limits)
         (take (min (length tier_limits) (length tier_prices)) tier_prices)
         final_tier_price user_count"
proof -
  let ?k = "min (length tier_limits) (length tier_prices)"
  have "zip (take ?k tier_limits) (take ?k tier_prices) = take ?k (zip tier_limits tier_prices)"
    by (simp add: take_zip)
  also have "\<dots> = zip tier_limits tier_prices" by simp
  finally show ?thesis by (simp add: month_pricing_def)
qed

subsection \<open>The rows and the table\<close>

lemma pricing_row_length:
  "length (pricing_row use_tiers tier_limits tier_prices final_tier_price i user_count)
     = (if use_tiers then min (length tier_limits) (length tier_prices) + 1 else 1) + 3"
  by (simp add: pricing_row_def case_prod_beta month_pricing_length)

lemma row_month_pricing_row:
  "row_month (pricing_row use_tiers tier_limits tier_prices final_tier_price i user_count)
     = PyInt (int i)"
  by (simp add: row_month_def pricing_row_def case_prod_beta)

lemma row_users_pricing_row:
  "row_users (pricing_row use_tiers tier_limits tier_prices final_tier_price i user_count)
     = PyInt user_count"
  by (simp add: row_users_def pricing_row_def case_prod_beta)

lemma row_tier_costs_pricing_row:
  "row_tier_costs (pricing_row use_tiers tier_limits tier_prices final_tier_price i user_count)
     = fst (month_pricing use_tiers tier_limits tier_prices final_tier_price user_count)"
  by (simp add: row_tier_costs_def pricing_row_def case_prod_beta butlast_append comp_def)

lemma row_total_cost_pricing_row:
  "row_total_cost (pricing_row use_tiers tier_limits tier_prices final_tier_price i user_count)
     = snd (month_pricing use_tiers tier_limits tier_prices final_tier_price user_count)"
  by (simp add: row_total_cost_def pricing_row_def case_prod_beta)

lemma pricing_data_length:
  "length (pricing_data initial_users growth_rate months tier_limits tier_prices
             final_tier_price use_tiers) = nat months + 1"
  by (simp add: pricing_data_def projected_users_length)

lemma pricing_data_nth:
  "m \<le> nat months \<Longrightarrow>
   pricing_data initial_users growth_rate months tier_limits tier_prices
       final_tier_price use_tiers ! m
     = pricing_row use_tiers tier_limits tier_prices final_tier_price m
         (projected_users initial_users growth_rate months ! m)"
  by (simp add: pricing_data_def projected_users_length nth_enumerate_eq)

lemma column_headers_length:
  "length (column_headers use_tiers tier_limits)
     = (if use_tiers then length tier_limits + 1 else 1) + 3"
  by (simp add: column_headers_def)

lemma generate_growth_projection_result:
  "generate_growth_projection initial_users growth_rate months tier_limits tier_prices
       final_tier_price use_tiers
   = (if use_tiers \<and> length tier_prices < length tier_limits then Inl ValueError
      else Inr \<lparr>columns = column_headers use_tiers tier_limits,
                rows = pricing_data initial_users growth_rate months tier_limits tier_prices
                         final_tier_price use_tiers\<rparr>)"
proof -
  let ?data = "pricing_data initial_users growth_rate months tier_limits tier_prices
                 final_tier_price use_tiers"
  let ?w = "(if use_tiers then min (length tier_limits) (length tier_prices) + 1 else 1) + 3"
  have width: "\<forall>row \<in> set ?data. length row = ?w"
    by (auto simp: pricing_data_def pricing_row_length)
  have nonempty: "?data \<noteq> []"
    using pricing_data_length [of initial_users growth_rate months tier_limits tier_prices
        final_tier_price use_tiers] by auto
  have "list_all (\<lambda>row. length row = length (column_headers use_tiers tier_limits)) ?data
        \<longleftrightarrow> ?w = length (column_headers use_tiers tier_limits)"
  proof
    assume "list_all (\<lambda>row. length row = length (column_headers use_tiers tier_limits)) ?data"
    moreover obtain row where "row \<in> set ?data" using nonempty by (cases ?data) auto
    ultimately show "?w = length (column_headers use_tiers tier_limits)"
      using width by (auto simp: list_all_iff)
  next
    assume "?w = length (column_headers use_tiers tier_limits)"
    then show "list_all (\<lambda>row. length row = length (column_headers use_tiers tier_limits)) ?data"
      using width by (simp add: list_all_iff)
  qed
  then show ?thesis
    by (auto simp: generate_growth_projection_def DataFrame_def column_headers_length)
qed

subsection \<open>The column headers\<close>

lemma column_headers_labels:
  "column_headers use_tiers tier_limits =
     [''Month'', ''Projected Users''] @
     (if use_tiers
      then map (\<lambda>N. ''Tier '' @ str_nat N @ '' Pricing ($)'') [1..<length tier_limits + 1]
           @ [''Final Tier Pricing ($)'']
      else [''Final Tier Pricing ($)'']) @
     [''Total Estimated Pricing ($)'']"
proof -
  have "map (\<lambda>i. ''Tier '' @ str_nat (i + 1) @ '' Pricing ($)'') [0..<n]
          = map (\<lambda>N. ''Tier '' @ str_nat N @ '' Pricing ($)'') [1..<n + 1]" for n
  proof -
    have "map (\<lambda>i. ''Tier '' @ str_nat (i + 1) @ '' Pricing ($)'') [0..<n]
            = map (\<lambda>N. ''Tier '' @ str_nat N @ '' Pricing ($)'') (map Suc [0..<n])"
      by (simp add: comp_def)
    also have "map Suc [0..<n] = [1..<n + 1]"
      by (simp add: map_Suc_upt)
    finally show ?thesis .
  qed
  then show ?thesis by (simp add: column_headers_def)
qed

lemma str_nat_examples:
  "str_nat 0 = ''0''" "str_nat 7 = ''7''" "str_nat 10 = ''10''" "str_nat 123 = ''123''"
  by code_simp+

subsection \<open>The scenarios of the specification\<close>

lemma scenario_A:
  "generate_growth_projection 10000 5 2 [] [] 1 False =
     Inr \<lparr>columns = [''Month'', ''Projected Users'', ''Final Tier Pricing ($)'',
                      ''Total Estimated Pricing ($)''],
          rows = [[PyInt 0, PyInt 10000, PyFloat 10000, PyFloat 10000],
                  [PyInt 1, PyInt 10500, PyFloat 10500, PyFloat 10500],
                  [PyInt 2, PyInt 11025, PyFloat 11025, PyFloat 11025]]\<rparr>"
  by code_simp

lemma scenario_B:
  "generate_growth_projection 10000 0 1 [5000, 5000] [1, 1/2] (4/5) True =
     Inr \<lparr>columns = [''Month'', ''Projected Users'', ''Tier 1 Pricing ($)'',
                      ''Tier 2 Pricing ($)'', ''Final Tier Pricing ($)'',
                      ''Total Estimated Pricing ($)''],
          rows = [[PyInt 0, PyInt 10000, PyFloat 5000, PyFloat 2500, PyFloat 0, PyFloat 7500],
                  [PyInt 1, PyInt 10000, PyFloat 5000, PyFloat 2500, PyFloat 0, PyFloat 7500]]\<rparr>"
  by code_simp

lemma scenario_C: "projected_users 1 100 3 = [1, 2, 4, 8]"
  by code_simp

lemma truncation_at_every_step:
  "projected_users 10 15 2 = [10, 11, 12] \<and> py_int (10 * (1 + 15 / 100) ^ 2) = 13"
  by code_simp

text \<open>
  Tier lists of different lengths: three limits and one price give rows of two tier
  costs under seven headers, and the table is refused; one limit and three prices
  give the table of the first tier alone.
\<close>

lemma unequal_lists_example:
  "pricing_data 10 0 1 [3, 4, 5] [1] 2 True =
     [[PyInt 0, PyInt 10, PyFloat 3, PyFloat 14, PyFloat 17],
      [PyInt 1, PyInt 10, PyFloat 3, PyFloat 14, PyFloat 17]] \<and>
   generate_growth_projection 10 0 1 [3, 4, 5] [1] 2 True = Inl ValueError \<and>
   generate_growth_projection 10 0 1 [3] [1, 7, 9] 2 True =
     Inr \<lparr>columns = [''Month'', ''Projected Users'', ''Tier 1 Pricing ($)'',
                      ''Final Tier Pricing ($)'', ''Total Estimated Pricing ($)''],
          rows = [[PyInt 0, PyInt 10, PyFloat 3, PyFloat 14, PyFloat 17],
                  [PyInt 1, PyInt 10, PyFloat 3, PyFloat 14, PyFloat 17]]\<rparr>"
  by code_simp

subsection \<open>Valid configurations\<close>

lemma valid_config_result:
  assumes "valid_config initial_users growth_rate months tier_limits tier_prices
             final_tier_price use_tiers"
  shows "generate_growth_projection initial_users growth_rate months tier_limits tier_prices
             final_tier_price use_tiers
         = Inr \<lparr>columns = column_headers use_tiers tier_limits,
                  rows = pricing_data initial_users growth_rate months tier_limits tier_prices
                           final_tier_price use_tiers\<rparr>"
  using assms by (simp add: generate_growth_projection_result valid_config_def)

lemma pricing_data_rows:
  assumes "row \<in> set (pricing_data initial_users growth_rate months tier_limits tier_prices
                          final_tier_price use_tiers)"
  shows "\<exists>m \<le> nat months.
           row = pricing_row use_tiers tier_limits tier_prices final_tier_price m
                   (projected_users initial_users growth_rate months ! m)"
proof -
  let ?data = "pricing_data initial_users growth_rate months tier_limits tier_prices
                 final_tier_price use_tiers"
  from assms obtain m where m: "m < length ?data" "row = ?data ! m"
    by (auto simp: in_set_conv_nth)
  then have "m \<le> nat months" by (simp add: pricing_data_length)
  with m(2) show ?thesis by (auto simp: pricing_data_nth)
qed

section \<open>The claims\<close>

text \<open>
  Claim C4. For every valid configuration the call returns a table with exactly
  \<open>months + 1\<close> rows, one per month \<open>0, \<dots>, months\<close> in this order: the
  \<^verbatim>\<open>Month\<close> cell of the row at position \<open>m\<close> is \<open>m\<close>.
\<close>

theorem one_row_per_month:
  assumes "valid_config initial_users growth_rate months tier_limits tier_prices
             final_tier_price use_tiers"
  shows "\<exists>df. generate_growth_projection initial_users growth_rate months tier_limits
                 tier_prices final_tier_price use_tiers = Inr df \<and>
              int (length (rows df)) = months + 1 \<and>
              (\<forall>m < length (rows df). row_month (rows df ! m) = PyInt (int m))"
proof -
  let ?data = "pricing_data initial_users growth_rate months tier_limits tier_prices
                 final_tier_price use_tiers"
  have "0 < months" using assms by (simp add: valid_config_def)
  then have "int (length ?data) = months + 1"
    by (simp add: pricing_data_length)
  moreover have "row_month (?data ! m) = PyInt (int m)" if "m < length ?data" for m
    using that by (simp add: pricing_data_length pricing_data_nth row_month_pricing_row)
  ultimately show ?thesis
    using valid_config_result [OF assms] by simp
qed

theorem one_row_per_month_witness:
  "valid_config 10000 5 2 [] [] 1 False \<and>
   (\<exists>df. generate_growth_projection 10000 5 2 [] [] 1 False = Inr df \<and>
         length (rows df) = 3 \<and>
         row_month (rows df ! 0) = PyInt 0 \<and>
         row_month (rows df ! 1) = PyInt 1 \<and>
         row_month (rows df ! 2) = PyInt 2)"
proof -
  have valid: "valid_config 10000 5 2 [] [] 1 False"
    by (simp add: valid_config_def)
  from one_row_per_month [OF valid] obtain df where
    df: "generate_growth_projection 10000 5 2 [] [] 1 False = Inr df"
      "int (length (rows df)) = 2 + 1"
      "\<forall>m < length (rows df). row_month (rows df ! m) = PyInt (int m)"
    by blast
  from df(2) have len: "length (rows df) = 3" by simp
  with df(3) have "row_month (rows df ! 0) = PyInt (int 0)"
    "row_month (rows df ! 1) = PyInt (int 1)" "row_month (rows df ! 2) = PyInt (int 2)"
    by simp_all
  with valid df(1) len show ?thesis by simp
qed





text \<open>
  Claim C3. For every valid configuration with tiered pricing, the tier costs and
  the total cost of every row are those of the specification's evaluation on the
  configured tiers, taken in order: each bounded tier charges
  \<open>min remaining capacity\<close> units at its unit price and \<open>remaining\<close> decreases by
  the units charged, and the users that remain after the bounded tiers are charged
  at the final unit price, whatever their number.
\<close>

theorem tiered_pricing_as_specified:
  assumes "valid_config initial_users growth_rate months tier_limits tier_prices
             final_tier_price True"
  shows "\<exists>df. generate_growth_projection initial_users growth_rate months tier_limits
                 tier_prices final_tier_price True = Inr df \<and>
              (\<forall>row \<in> set (rows df). \<exists>user_count.
                 row_users row = PyInt user_count \<and>
                 (row_tier_costs row, row_total_cost row)
                   = spec_tiered_pricing (zip tier_limits tier_prices) final_tier_price
                       user_count)"
proof -
  let ?data = "pricing_data initial_users growth_rate months tier_limits tier_prices
                 final_tier_price True"
  have "\<exists>user_count. row_users row = PyInt user_count \<and>
          (row_tier_costs row, row_total_cost row)
            = spec_tiered_pricing (zip tier_limits tier_prices) final_tier_price user_count"
    if "row \<in> set ?data" for row
  proof -
    from pricing_data_rows [OF that] obtain m where
      row: "row = pricing_row True tier_limits tier_prices final_tier_price m
                    (projected_users initial_users growth_rate months ! m)"
      by blast
    let ?u = "projected_users initial_users growth_rate months ! m"
    have "row_users row = PyInt ?u"
      by (simp add: row row_users_pricing_row)
    moreover have "(row_tier_costs row, row_total_cost row)
        = month_pricing True tier_limits tier_prices final_tier_price ?u"
      by (simp add: row row_tier_costs_pricing_row row_total_cost_pricing_row)
    ultimately show ?thesis
      by (simp add: month_pricing_spec)
  qed
  then show ?thesis
    using valid_config_result [OF assms] by simp
qed

theorem tiered_pricing_as_specified_witness:
  "valid_config 10000 0 1 [5000, 5000] [1, 1/2] (4/5) True \<and>
   (\<exists>df. generate_growth_projection 10000 0 1 [5000, 5000] [1, 1/2] (4/5) True = Inr df \<and>
         row_users (rows df ! 0) = PyInt 10000 \<and>
         (row_tier_costs (rows df ! 0), row_total_cost (rows df ! 0))
           = spec_tiered_pricing [(5000, 1), (5000, 1/2)] (4/5) 10000 \<and>
         spec_tiered_pricing [(5000, 1), (5000, 1/2)] (4/5) 10000 = ([5000, 2500, 0], 7500))"
proof -
  have valid: "valid_config 10000 0 1 [5000, 5000] [1, 1/2] (4/5) True"
    by (simp add: valid_config_def)
  from tiered_pricing_as_specified [OF valid] obtain df where
    df: "generate_growth_projection 10000 0 1 [5000, 5000] [1, 1/2] (4/5) True = Inr df"
    and spec: "\<forall>row \<in> set (rows df). \<exists>user_count.
                 row_users row = PyInt user_count \<and>
                 (row_tier_costs row, row_total_cost row)
                   = spec_tiered_pricing (zip [5000, 5000] [1, 1/2]) (4/5) user_count"
    by blast
  from df have rows: "rows df =
      [[PyInt 0, PyInt 10000, PyFloat 5000, PyFloat 2500, PyFloat 0, PyFloat 7500],
       [PyInt 1, PyInt 10000, PyFloat 5000, PyFloat 2500, PyFloat 0, PyFloat 7500]]"
    by (auto simp: scenario_B)
  then have "rows df ! 0 \<in> set (rows df)" by simp
  with spec obtain user_count where
    u: "row_users (rows df ! 0) = PyInt user_count"
    and p: "(row_tier_costs (rows df ! 0), row_total_cost (rows df ! 0))
              = spec_tiered_pricing (zip [5000, 5000] [1, 1/2]) (4/5) user_count"
    by blast
  from u have "user_count = 10000" by (simp add: rows row_users_def)
  with u p have "row_users (rows df ! 0) = PyInt 10000"
    "(row_tier_costs (rows df ! 0), row_total_cost (rows df ! 0))
       = spec_tiered_pricing [(5000, 1), (5000, 1/2)] (4/5) 10000"
    by simp_all
  moreover have "spec_tiered_pricing [(5000, 1), (5000, 1/2)] (4/5) 10000
                   = ([5000, 2500, 0], 7500)"
    by (simp add: spec_tiered_pricing_def Let_def)
  ultimately show ?thesis using valid df by simp
qed

text \<open>
  Claim C5. For every row of the table of a valid configuration, flat or tiered, the
  tier costs sum to the total cost. In the exact arithmetic of this model the two
  are equal, hence within the relative tolerance \<open>1e-9\<close>; the code adds the same
  costs in the same order to \<^verbatim>\<open>total_cost\<close> as a left-to-right sum of
  \<^verbatim>\<open>tier_costs\<close> does.
\<close>

theorem tier_costs_sum_to_total:
  assumes "valid_config initial_users growth_rate months tier_limits tier_prices
             final_tier_price use_tiers"
  shows "\<exists>df. generate_growth_projection initial_users growth_rate months tier_limits
                 tier_prices final_tier_price use_tiers = Inr df \<and>
              (\<forall>row \<in> set (rows df).
                 sum_list (row_tier_costs row) = row_total_cost row \<and>
                 \<bar>sum_list (row_tier_costs row) - row_total_cost row\<bar>
                   \<le> 1 / 10 ^ 9 * \<bar>row_total_cost row\<bar>)"
proof -
  let ?data = "pricing_data initial_users growth_rate months tier_limits tier_prices
                 final_tier_price use_tiers"
  have "sum_list (row_tier_costs row) = row_total_cost row" if "row \<in> set ?data" for row
  proof -
    from pricing_data_rows [OF that] obtain m where
      "row = pricing_row use_tiers tier_limits tier_prices final_tier_price m
               (projected_users initial_users growth_rate months ! m)"
      by blast
    then show ?thesis
      by (simp add: row_tier_costs_pricing_row row_total_cost_pricing_row month_pricing_sum)
  qed
  then show ?thesis
    using valid_config_result [OF assms] by simp
qed

theorem tier_costs_sum_to_total_witness:
  "valid_config 10000 0 1 [5000, 5000] [1, 1/2] (4/5) True \<and>
   (\<exists>df. generate_growth_projection 10000 0 1 [5000, 5000] [1, 1/2] (4/5) True = Inr df \<and>
         row_tier_costs (rows df ! 0) = [5000, 2500, 0] \<and>
         sum_list (row_tier_costs (rows df ! 0)) = row_total_cost (rows df ! 0) \<and>
         row_total_cost (rows df ! 0) = 7500)"
proof -
  have valid: "valid_config 10000 0 1 [5000, 5000] [1, 1/2] (4/5) True"
    by (simp add: valid_config_def)
  from tier_costs_sum_to_total [OF valid] obtain df where
    df: "generate_growth_projection 10000 0 1 [5000, 5000] [1, 1/2] (4/5) True = Inr df"
    and sum: "\<forall>row \<in> set (rows df).
                sum_list (row_tier_costs row) = row_total_cost row \<and>
                \<bar>sum_list (row_tier_costs row) - row_total_cost row\<bar>
                  \<le> 1 / 10 ^ 9 * \<bar>row_total_cost row\<bar>"
    by blast
  from df have rows: "rows df =
      [[PyInt 0, PyInt 10000, PyFloat 5000, PyFloat 2500, PyFloat 0, PyFloat 7500],
       [PyInt 1, PyInt 10000, PyFloat 5000, PyFloat 2500, PyFloat 0, PyFloat 7500]]"
    by (auto simp: scenario_B)
  then have "rows df ! 0 \<in> set (rows df)" by simp
  with sum have "sum_list (row_tier_costs (rows df ! 0)) = row_total_cost (rows df ! 0)"
    by blast
  moreover have "row_tier_costs (rows df ! 0) = [5000, 2500, 0]"
    by (simp add: rows row_tier_costs_def)
  moreover have "row_total_cost (rows df ! 0) = 7500"
    by (simp add: rows row_total_cost_def)
  ultimately show ?thesis using valid df by simp
qed

text \<open>
  Claim C6. For every valid configuration with tiered pricing, every row has one
  tier cost per configured tier and one more for the final tier; when the tier
  capacities sum to at least the row's projected users, that last entry is 0.
\<close>

theorem overflow_entry_always_present:
  assumes "valid_config initial_users growth_rate months tier_limits tier_prices
             final_tier_price True"
  shows "\<exists>df. generate_growth_projection initial_users growth_rate months tier_limits
                 tier_prices final_tier_price True = Inr df \<and>
              (\<forall>row \<in> set (rows df).
                 length (row_tier_costs row) = length tier_limits + 1 \<and>
                 (cell_value (row_users row) \<le> of_int (sum_list tier_limits) \<longrightarrow>
                    last (row_tier_costs row) = 0))"
proof -
  let ?data = "pricing_data initial_users growth_rate months tier_limits tier_prices
                 final_tier_price True"
  have len: "length tier_limits = length tier_prices"
    and limits: "\<forall>limit \<in> set tier_limits. 0 \<le> limit"
    using assms by (auto simp: valid_config_def)
  have "length (row_tier_costs row) = length tier_limits + 1 \<and>
        (cell_value (row_users row) \<le> of_int (sum_list tier_limits) \<longrightarrow>
           last (row_tier_costs row) = 0)"
    if "row \<in> set ?data" for row
  proof -
    from pricing_data_rows [OF that] obtain m where
      row: "row = pricing_row True tier_limits tier_prices final_tier_price m
                    (projected_users initial_users growth_rate months ! m)"
      by blast
    let ?u = "projected_users initial_users growth_rate months ! m"
    have "length (row_tier_costs row) = length tier_limits + 1"
      by (simp add: row row_tier_costs_pricing_row month_pricing_length len)
    moreover have "last (row_tier_costs row) = 0"
      if "cell_value (row_users row) \<le> of_int (sum_list tier_limits)"
    proof -
      from that have "?u \<le> sum_list tier_limits"
        by (simp add: row row_users_pricing_row)
      with limits len show ?thesis
        by (simp add: row row_tier_costs_pricing_row month_pricing_overflow_zero)
    qed
    ultimately show ?thesis by simp
  qed
  then show ?thesis
    using valid_config_result [OF assms] by simp
qed

theorem overflow_entry_always_present_witness:
  "valid_config 10000 0 1 [5000, 5000] [1, 1/2] (4/5) True \<and>
   (\<exists>df. generate_growth_projection 10000 0 1 [5000, 5000] [1, 1/2] (4/5) True = Inr df \<and>
         cell_value (row_users (rows df ! 0)) \<le> of_int (sum_list [5000, 5000]) \<and>
         length (row_tier_costs (rows df ! 0)) = 3 \<and>
         last (row_tier_costs (rows df ! 0)) = 0)"
proof -
  have valid: "valid_config 10000 0 1 [5000, 5000] [1, 1/2] (4/5) True"
    by (simp add: valid_config_def)
  from overflow_entry_always_present [OF valid] obtain df where
    df: "generate_growth_projection 10000 0 1 [5000, 5000] [1, 1/2] (4/5) True = Inr df"
    and entries: "\<forall>row \<in> set (rows df).
                 length (row_tier_costs row) = length [5000, 5000 :: int] + 1 \<and>
                 (cell_value (row_users row) \<le> of_int (sum_list [5000, 5000]) \<longrightarrow>
                    last (row_tier_costs row) = 0)"
    by blast
  from df have rows: "rows df =
      [[PyInt 0, PyInt 10000, PyFloat 5000, PyFloat 2500, PyFloat 0, PyFloat 7500],
       [PyInt 1, PyInt 10000, PyFloat 5000, PyFloat 2500, PyFloat 0, PyFloat 7500]]"
    by (auto simp: scenario_B)
  then have "rows df ! 0 \<in> set (rows df)" by simp
  with entries have e: "length (row_tier_costs (rows df ! 0)) = length [5000, 5000 :: int] + 1"
    "cell_value (row_users (rows df ! 0)) \<le> of_int (sum_list [5000, 5000]) \<longrightarrow>
       last (row_tier_costs (rows df ! 0)) = 0"
    by blast+
  have fits: "cell_value (row_users (rows df ! 0)) \<le> of_int (sum_list [5000, 5000])"
    by (simp add: rows row_users_def)
  with e show ?thesis using valid df by simp
qed

text \<open>
  Claim C7. For every valid configuration with flat pricing, the total cost of every
  row is its projected users times \<open>final_tier_price\<close> (the price per user), and
  the tier costs are the one-element list of the total cost.
\<close>

theorem flat_pricing:
  assumes "valid_config initial_users growth_rate months tier_limits tier_prices
             final_tier_price False"
  shows "\<exists>df. generate_growth_projection initial_users growth_rate months tier_limits
                 tier_prices final_tier_price False = Inr df \<and>
              (\<forall>row \<in> set (rows df).
                 row_total_cost row = cell_value (row_users row) * final_tier_price \<and>
                 row_tier_costs row = [row_total_cost row])"
proof -
  let ?data = "pricing_data initial_users growth_rate months tier_limits tier_prices
                 final_tier_price False"
  have "row_total_cost row = cell_value (row_users row) * final_tier_price \<and>
        row_tier_costs row = [row_total_cost row]"
    if "row \<in> set ?data" for row
  proof -
    from pricing_data_rows [OF that] obtain m where
      "row = pricing_row False tier_limits tier_prices final_tier_price m
               (projected_users initial_users growth_rate months ! m)"
      by blast
    then show ?thesis
      by (simp add: row_tier_costs_pricing_row row_total_cost_pricing_row
          row_users_pricing_row month_pricing_flat)
  qed
  then show ?thesis
    using valid_config_result [OF assms] by simp
qed

theorem flat_pricing_witness:
  "valid_config 10000 5 2 [] [] 1 False \<and>
   (\<exists>df. generate_growth_projection 10000 5 2 [] [] 1 False = Inr df \<and>
         row_users (rows df ! 2) = PyInt 11025 \<and>
         row_total_cost (rows df ! 2) = cell_value (row_users (rows df ! 2)) * 1 \<and>
         row_tier_costs (rows df ! 2) = [row_total_cost (rows df ! 2)] \<and>
         row_total_cost (rows df ! 2) = 11025)"
proof -
  have valid: "valid_config 10000 5 2 [] [] 1 False"
    by (simp add: valid_config_def)
  from flat_pricing [OF valid] obtain df where
    df: "generate_growth_projection 10000 5 2 [] [] 1 False = Inr df"
    and flat: "\<forall>row \<in> set (rows df).
                 row_total_cost row = cell_value (row_users row) * 1 \<and>
                 row_tier_costs row = [row_total_cost row]"
    by blast
  from df have rows: "rows df = [[PyInt 0, PyInt 10000, PyFloat 10000, PyFloat 10000],
                  [PyInt 1, PyInt 10500, PyFloat 10500, PyFloat 10500],
                  [PyInt 2, PyInt 11025, PyFloat 11025, PyFloat 11025]]"
    by (auto simp: scenario_A)
  then have "rows df ! 2 \<in> set (rows df)" by simp
  with flat have "row_total_cost (rows df ! 2) = cell_value (row_users (rows df ! 2)) * 1"
    "row_tier_costs (rows df ! 2) = [row_total_cost (rows df ! 2)]"
    by blast+
  moreover have "row_users (rows df ! 2) = PyInt 11025"
    by (simp add: rows row_users_def)
  moreover have "row_total_cost (rows df ! 2) = 11025"
    by (simp add: rows row_total_cost_def)
  ultimately show ?thesis using valid df by simp
qed

text \<open>
  Claim C9. For every valid configuration the columns of the table are
  \<^verbatim>\<open>Month\<close>, \<^verbatim>\<open>Projected Users\<close>, then with tiered pricing
  \<^verbatim>\<open>Tier N Pricing ($)\<close> for \<open>N\<close> from 1 to the number of tiers followed by
  \<^verbatim>\<open>Final Tier Pricing ($)\<close>, with flat pricing \<^verbatim>\<open>Final Tier Pricing ($)\<close>
  alone, and last \<^verbatim>\<open>Total Estimated Pricing ($)\<close>.
\<close>

theorem header_labels:
  assumes "valid_config initial_users growth_rate months tier_limits tier_prices
             final_tier_price use_tiers"
  shows "\<exists>df. generate_growth_projection initial_users growth_rate months tier_limits
                 tier_prices final_tier_price use_tiers = Inr df \<and>
              columns df =
                [''Month'', ''Projected Users''] @
                (if use_tiers
                 then map (\<lambda>N. ''Tier '' @ str_nat N @ '' Pricing ($)'')
                        [1..<length tier_limits + 1]
                      @ [''Final Tier Pricing ($)'']
                 else [''Final Tier Pricing ($)'']) @
                [''Total Estimated Pricing ($)'']"
  using valid_config_result [OF assms] column_headers_labels [of use_tiers tier_limits]
  by simp

theorem header_labels_witness:
  "valid_config 10000 0 1 [5000, 5000] [1, 1/2] (4/5) True \<and>
   (\<exists>df. generate_growth_projection 10000 0 1 [5000, 5000] [1, 1/2] (4/5) True = Inr df \<and>
         columns df = [''Month'', ''Projected Users'', ''Tier 1 Pricing ($)'',
                       ''Tier 2 Pricing ($)'', ''Final Tier Pricing ($)'',
                       ''Total Estimated Pricing ($)'']) \<and>
   valid_config 10000 5 2 [] [] 1 False \<and>
   (\<exists>df. generate_growth_projection 10000 5 2 [] [] 1 False = Inr df \<and>
         columns df = [''Month'', ''Projected Users'', ''Final Tier Pricing ($)'',
                       ''Total Estimated Pricing ($)''])"
proof -
  have tiered: "valid_config 10000 0 1 [5000, 5000] [1, 1/2] (4/5) True"
    and flat: "valid_config 10000 5 2 [] [] 1 False"
    by (simp_all add: valid_config_def)
  have labels: "map (\<lambda>N. ''Tier '' @ str_nat N @ '' Pricing ($)'')
                  [1..<length [5000, 5000 :: int] + 1]
                = [''Tier 1 Pricing ($)'', ''Tier 2 Pricing ($)'']"
    by code_simp
  from header_labels [OF tiered, unfolded labels] obtain df where
    "generate_growth_projection 10000 0 1 [5000, 5000] [1, 1/2] (4/5) True = Inr df"
    "columns df = [''Month'', ''Projected Users'', ''Tier 1 Pricing ($)'',
                   ''Tier 2 Pricing ($)'', ''Final Tier Pricing ($)'',
                   ''Total Estimated Pricing ($)'']"
    by auto
  moreover from header_labels [OF flat] obtain df' where
    "generate_growth_projection 10000 5 2 [] [] 1 False = Inr df'"
    "columns df' = [''Month'', ''Projected Users'', ''Final Tier Pricing ($)'',
                    ''Total Estimated Pricing ($)'']"
    by auto
  ultimately show ?thesis using tiered flat by blast
qed

text \<open>
  Claim C10. The tiers arrive as two lists. With \<open>use_tiers\<close> true and for any two
  lists, of different lengths in particular, the pricing of a month only reads the
  first \<open>min (length tier_limits) (length tier_prices)\<close> entries of each list,
  the headers have one tier label per entry of \<open>tier_limits\<close>, and every row
  has \<open>min (length tier_limits) (length tier_prices) + 1\<close> tier costs.
\<close>

theorem unequal_tier_lists:
  "month_pricing True tier_limits tier_prices final_tier_price user_count
     = month_pricing True
         (take (min (length tier_limits) (length tier_prices)) tier_limits)
         (take (min (length tier_limits) (length tier_prices)) tier_prices)
         final_tier_price user_count \<and>
   column_headers True tier_limits =
     [''Month'', ''Projected Users''] @
     map (\<lambda>N. ''Tier '' @ str_nat N @ '' Pricing ($)'') [1..<length tier_limits + 1] @
     [''Final Tier Pricing ($)'', ''Total Estimated Pricing ($)''] \<and>
   (\<forall>row \<in> set (pricing_data initial_users growth_rate months tier_limits tier_prices
                    final_tier_price True).
      length (row_tier_costs row) = min (length tier_limits) (length tier_prices) + 1)"
proof -
  let ?data = "pricing_data initial_users growth_rate months tier_limits tier_prices
                 final_tier_price True"
  have "length (row_tier_costs row) = min (length tier_limits) (length tier_prices) + 1"
    if "row \<in> set ?data" for row
  proof -
    from pricing_data_rows [OF that] obtain m where
      "row = pricing_row True tier_limits tier_prices final_tier_price m
               (projected_users initial_users growth_rate months ! m)"
      by blast
    then show ?thesis
      by (simp add: row_tier_costs_pricing_row month_pricing_length)
  qed
  moreover note month_pricing_surplus [of tier_limits tier_prices final_tier_price user_count]
  moreover have "column_headers True tier_limits =
     [''Month'', ''Projected Users''] @
     map (\<lambda>N. ''Tier '' @ str_nat N @ '' Pricing ($)'') [1..<length tier_limits + 1] @
     [''Final Tier Pricing ($)'', ''Total Estimated Pricing ($)'']"
    by (simp add: column_headers_labels)
  ultimately show ?thesis by blast
qed

theorem unequal_tier_lists_witness:
  "month_pricing True [3, 4, 5] [1] 2 10 = month_pricing True [3] [1] 2 10 \<and>
   month_pricing True [3] [1] 2 10 = ([3, 14], 17) \<and>
   column_headers True [3, 4, 5] =
     [''Month'', ''Projected Users'', ''Tier 1 Pricing ($)'', ''Tier 2 Pricing ($)'',
      ''Tier 3 Pricing ($)'', ''Final Tier Pricing ($)'', ''Total Estimated Pricing ($)''] \<and>
   length (row_tier_costs (pricing_data 10 0 1 [3, 4, 5] [1] 2 True ! 0)) = 2"
proof -
  note inst = unequal_tier_lists [of "[3, 4, 5]" "[1]" 2 10 10 0 1]
  have data: "pricing_data 10 0 1 [3, 4, 5] [1] 2 True =
     [[PyInt 0, PyInt 10, PyFloat 3, PyFloat 14, PyFloat 17],
      [PyInt 1, PyInt 10, PyFloat 3, PyFloat 14, PyFloat 17]]"
    using unequal_lists_example by blast
  then have "pricing_data 10 0 1 [3, 4, 5] [1] 2 True ! 0
               \<in> set (pricing_data 10 0 1 [3, 4, 5] [1] 2 True)"
    by simp
  with inst have "length (row_tier_costs (pricing_data 10 0 1 [3, 4, 5] [1] 2 True ! 0)) = 2"
    by auto
  moreover from inst have "month_pricing True [3, 4, 5] [1] 2 10 = month_pricing True [3] [1] 2 10"
    by simp
  moreover have "month_pricing True [3] [1] 2 10 = ([3, 14], 17)"
    by (simp add: month_pricing_def)
  moreover have "column_headers True [3, 4, 5] =
     [''Month'', ''Projected Users'', ''Tier 1 Pricing ($)'', ''Tier 2 Pricing ($)'',
      ''Tier 3 Pricing ($)'', ''Final Tier Pricing ($)'', ''Total Estimated Pricing ($)'']"
    by code_simp
  ultimately show ?thesis by blast
qed




end
